theory Spec2Isabelle
  imports Complex_Main "HOL-Library.Sublist"
begin

section \<open>Python strings\<close>

text \<open>
  A Python \<open>str\<close> is modelled as a \<open>string\<close>; a character stands for the code point
  of the same number (below 256).  All labels the classifier compares against are ASCII.
\<close>

definition py_isspace :: "char \<Rightarrow> bool" where
  \<comment> \<open>\<open>str.isspace\<close> and the regular expression class \<open>\s\<close> on code points below 256.\<close>
  "py_isspace c = (c \<in> set [CHR 0x09, CHR 0x0A, CHR 0x0B, CHR 0x0C, CHR 0x0D,
                              CHR 0x1C, CHR 0x1D, CHR 0x1E, CHR 0x1F, CHR 0x20,
                              CHR 0x85, CHR 0xA0])"

definition py_strip :: "string \<Rightarrow> string" where
  \<comment> \<open>\<open>s.strip()\<close>\<close>
  "py_strip s = rev (dropWhile py_isspace (rev (dropWhile py_isspace s)))"

function collapse_ws :: "string \<Rightarrow> string" where
  \<comment> \<open>\<open>re.sub(r'\s+', ' ', s)\<close>: every maximal run of whitespace becomes one space.\<close>
  "collapse_ws [] = []"
| "collapse_ws (c # cs) =
     (if py_isspace c then CHR '' '' # collapse_ws (dropWhile py_isspace cs)
      else c # collapse_ws cs)"
  by pat_completeness auto
termination
  by (relation "measure length") (auto simp: less_Suc_eq_le length_dropWhile_le)

definition py_upper :: "string \<Rightarrow> string" where
  \<comment> \<open>\<open>s.upper()\<close> on the letters a to z.  Other characters are left as they are; Python
      also maps the lowercase letters above 127 (0xE9 to 0xC9, 0xDF to \<open>SS\<close>), which occur
      in none of the labels.\<close>
  "py_upper s = map (\<lambda>c. if (97::nat) \<le> of_char c \<and> of_char c \<le> (122::nat)
                           then char_of (of_char c - (32::nat)) else c) s"

definition py_replace_char :: "char \<Rightarrow> char \<Rightarrow> string \<Rightarrow> string" where
  \<comment> \<open>\<open>s.replace(a, b)\<close> for one-character \<open>a\<close> and \<open>b\<close>.\<close>
  "py_replace_char a b s = map (\<lambda>c. if c = a then b else c) s"

definition py_endswith_char :: "string \<Rightarrow> char \<Rightarrow> bool" where
  \<comment> \<open>\<open>s.endswith(c)\<close> for a one-character \<open>c\<close>.\<close>
  "py_endswith_char s c = (s \<noteq> [] \<and> last s = c)"

definition py_contains :: "string \<Rightarrow> string \<Rightarrow> bool" where
  \<comment> \<open>\<open>sub in s\<close>\<close>
  "py_contains sub s = (\<exists>i \<in> set [0 ..< Suc (length s)]. take (length sub) (drop i s) = sub)"

section \<open>Isolating the JSON object in the model's answer\<close>

fun strip_fences :: "string \<Rightarrow> string" where
  \<comment> \<open>\<open>re.sub(r'```(?:json)?|```', '', content)\<close>\<close>
  "strip_fences [] = []"
| "strip_fences (c # cs) =
     (if take 7 (c # cs) = ''```json'' then strip_fences (drop 6 cs)
      else if take 3 (c # cs) = ''```'' then strip_fences (drop 2 cs)
      else c # strip_fences cs)"

definition drop_before_brace :: "string \<Rightarrow> string" where
  \<comment> \<open>\<open>re.sub(r'^[^{]*', '', cleaned)\<close>\<close>
  "drop_before_brace s = dropWhile (\<lambda>c. c \<noteq> CHR ''{'') s"

definition drop_after_brace :: "string \<Rightarrow> string" where
  \<comment> \<open>\<open>re.sub(r'[^}]*$', '', cleaned)\<close>, on a string that does not end in a newline.\<close>
  "drop_after_brace s = rev (dropWhile (\<lambda>c. c \<noteq> CHR ''}'') (rev s))"

definition isolate_json :: "string \<Rightarrow> string" where
  \<comment> \<open>The three substitutions applied to \<open>content\<close>, the stripped answer.\<close>
  "isolate_json content =
     drop_after_brace (drop_before_brace (py_strip (strip_fences content)))"

section \<open>Python values\<close>

text \<open>
  A Python \<open>float\<close> is modelled by the real number it denotes, or one of the three special
  values.  Comparison follows IEEE 754: every comparison with \<open>NaN\<close> is false.
\<close>

datatype pyfloat = Fin real | PosInf | NegInf | NaN

fun float_lt :: "pyfloat \<Rightarrow> pyfloat \<Rightarrow> bool" where
  "float_lt NaN y = False"
| "float_lt x NaN = False"
| "float_lt PosInf y = False"
| "float_lt x NegInf = False"
| "float_lt NegInf y = True"
| "float_lt x PosInf = True"
| "float_lt (Fin a) (Fin b) = (a < b)"

text \<open>What \<open>json.loads\<close> returns; a \<open>dict\<close> is the list of its items.\<close>

datatype json =
    JNull
  | JBool bool
  | JInt int
  | JFloat pyfloat
  | JStr string
  | JArr "json list"
  | JObj "(string \<times> json) list"

datatype pyexn =
    JSONDecodeError string
  | AttributeError string
  | TypeError string
  | OtherException string

fun exn_str :: "pyexn \<Rightarrow> string" where
  \<comment> \<open>\<open>str(e)\<close>\<close>
  "exn_str (JSONDecodeError m) = m"
| "exn_str (AttributeError m) = m"
| "exn_str (TypeError m) = m"
| "exn_str (OtherException m) = m"

fun py_type_name :: "json \<Rightarrow> string" where
  "py_type_name JNull = ''NoneType''"
| "py_type_name (JBool b) = ''bool''"
| "py_type_name (JInt i) = ''int''"
| "py_type_name (JFloat f) = ''float''"
| "py_type_name (JStr s) = ''str''"
| "py_type_name (JArr xs) = ''list''"
| "py_type_name (JObj kvs) = ''dict''"

definition quoted :: "string \<Rightarrow> string" where
  "quoted s = CHR 0x27 # s @ [CHR 0x27]"

definition no_attribute :: "json \<Rightarrow> string \<Rightarrow> pyexn" where
  "no_attribute v a =
     AttributeError (quoted (py_type_name v) @ '' object has no attribute '' @ quoted a)"

fun dict_get :: "json \<Rightarrow> string \<Rightarrow> json \<Rightarrow> pyexn + json" where
  \<comment> \<open>\<open>result.get(key, default)\<close>\<close>
  "dict_get (JObj kvs) k d = Inr (case map_of kvs k of Some v \<Rightarrow> v | None \<Rightarrow> d)"
| "dict_get v k d = Inl (no_attribute v ''get'')"

fun str_upper :: "json \<Rightarrow> pyexn + string" where
  \<comment> \<open>\<open>v.upper()\<close>: only a \<open>str\<close> has the method.\<close>
  "str_upper (JStr s) = Inr (py_upper s)"
| "str_upper v = Inl (no_attribute v ''upper'')"

fun as_number :: "json \<Rightarrow> pyfloat option" where
  \<comment> \<open>The values Python orders against a \<open>float\<close>: \<open>bool\<close>, \<open>int\<close> and \<open>float\<close>.\<close>
  "as_number (JBool b) = Some (Fin (if b then 1 else 0))"
| "as_number (JInt i) = Some (Fin (of_int i))"
| "as_number (JFloat f) = Some f"
| "as_number v = None"

definition py_min1 :: "json \<Rightarrow> pyexn + pyfloat" where
  \<comment> \<open>\<open>min(1.0, score)\<close>: the second argument if it is less than the first.\<close>
  "py_min1 v =
     (case as_number v of
        None \<Rightarrow> Inl (TypeError (quoted ''<'' @ '' not supported between instances of ''
                        @ quoted (py_type_name v) @ '' and '' @ quoted ''float''))
      | Some x \<Rightarrow> Inr (if float_lt x (Fin 1) then x else Fin 1))"

definition py_max0 :: "pyfloat \<Rightarrow> pyfloat" where
  \<comment> \<open>\<open>max(0.0, m)\<close>: the second argument if it is greater than the first.\<close>
  "py_max0 m = (if float_lt (Fin 0) m then m else Fin 0)"

definition round_half_even :: "real \<Rightarrow> int" where
  "round_half_even y =
     (let f = \<lfloor>y\<rfloor>; d = y - of_int f
      in if d < 1 / 2 then f else if 1 / 2 < d then f + 1
         else if even f then f else f + 1)"

fun py_round2 :: "pyfloat \<Rightarrow> pyfloat" where
  \<comment> \<open>\<open>round(score, 2)\<close>: the decimal with two places nearest to the value, ties to even
      (Python returns the float nearest to that decimal).\<close>
  "py_round2 (Fin x) = Fin (of_int (round_half_even (x * 100)) / 100)"
| "py_round2 v = v"

text \<open>
  The two library functions the normalizer calls: \<open>json.loads\<close>, which returns a value or
  raises, and the built-in \<open>float\<close> on a string, which returns a float or raises
  \<open>ValueError\<close> (\<open>None\<close>).
\<close>

record pylib =
  json_loads :: "string \<Rightarrow> pyexn + json"
  py_float :: "string \<Rightarrow> pyfloat option"

section \<open>The classification result\<close>

record result =
  categoria :: string
  score :: pyfloat
  evidencia :: json

definition CATEGORIAS_VALIDAS :: "string list" where
  "CATEGORIAS_VALIDAS = [''QUEJA_RECLAMO'', ''CONTRATO'', ''RESOLUCION_ADMINISTRATIVA'',
                         ''INFORME_TECNICO'', ''COMUNICACION_INTERNA'']"

definition normalize_cat :: "string \<Rightarrow> string" where
  \<comment> \<open>From the uppercased label: underscores, plural repair, validation.\<close>
  "normalize_cat u =
     (let cat = py_replace_char (CHR '' '') (CHR ''_'') u;
          cat = (if py_endswith_char cat (CHR ''S'') \<and> butlast cat \<in> set CATEGORIAS_VALIDAS
                 then butlast cat else cat)
      in if cat \<notin> set CATEGORIAS_VALIDAS then ''REVISION_MANUAL'' else cat)"

definition read_score :: "pylib \<Rightarrow> json \<Rightarrow> json" where
  \<comment> \<open>A string score is parsed with a comma read as the decimal point; 0.5 if that fails.\<close>
  "read_score lib s =
     (case s of
        JStr t \<Rightarrow> (case py_float lib (py_replace_char (CHR '','') (CHR ''.'') t) of
                     Some f \<Rightarrow> JFloat f
                   | None \<Rightarrow> JFloat (Fin (1 / 2)))
      | _ \<Rightarrow> s)"

definition interpret_response ::
  "pylib \<Rightarrow> (pyfloat \<Rightarrow> pyfloat) \<Rightarrow> string \<Rightarrow> json \<Rightarrow> pyexn + result" where
  \<comment> \<open>The statements between \<open>json.loads\<close> and the \<open>return\<close>, common to both variants up to
      the rounding of the score and the default evidence.\<close>
  "interpret_response lib rnd dflt r =
     (case dict_get r ''categoria'' (JStr []) of Inl e \<Rightarrow> Inl e | Inr c \<Rightarrow>
     (case str_upper c of Inl e \<Rightarrow> Inl e | Inr u \<Rightarrow>
     (case dict_get r ''score'' (JFloat (Fin (1 / 2))) of Inl e \<Rightarrow> Inl e | Inr s \<Rightarrow>
     (case py_min1 (read_score lib s) of Inl e \<Rightarrow> Inl e | Inr m \<Rightarrow>
     (case dict_get r ''evidencia'' (JStr dflt) of Inl e \<Rightarrow> Inl e | Inr ev \<Rightarrow>
        Inr \<lparr>categoria = normalize_cat u, score = rnd (py_max0 m),
             evidencia = ev\<rparr>)))))"

subsection \<open>Text-only variant\<close>

definition error_text :: "pyexn \<Rightarrow> result" where
  \<comment> \<open>\<open>except Exception as e\<close>\<close>
  "error_text e =
     \<lparr>categoria = ''ERROR'', score = Fin 0, evidencia = JStr (take 100 (exn_str e))\<rparr>"

definition unreadable_text :: result where
  "unreadable_text =
     \<lparr>categoria = ''REVISION_MANUAL'', score = Fin 0, evidencia = JStr ''JSON ilegible''\<rparr>"

definition normalize_text :: "pylib \<Rightarrow> string \<Rightarrow> result" where
  \<comment> \<open>\<open>classify_document_text_only\<close> from the answer's \<open>content\<close> on.\<close>
  "normalize_text lib raw =
     (let cleaned = isolate_json (py_strip raw)
      in if cleaned \<noteq> [] then
           (case json_loads lib cleaned of
              Inl e \<Rightarrow> error_text e
            | Inr r \<Rightarrow>
                (case interpret_response lib (\<lambda>x. x) ''Sin evidencia'' r of
                   Inl e \<Rightarrow> error_text e
                 | Inr res \<Rightarrow> res))
         else unreadable_text)"

subsection \<open>Vision variant\<close>

definition syntax_error_hybrid :: "string \<Rightarrow> result" where
  \<comment> \<open>\<open>except json.JSONDecodeError as je\<close>\<close>
  "syntax_error_hybrid m =
     \<lparr>categoria = ''REVISION_MANUAL'', score = Fin 0,
      evidencia = JStr (''Error de sintaxis JSON: '' @ take 50 m)\<rparr>"

definition error_hybrid :: "pyexn \<Rightarrow> result" where
  \<comment> \<open>The two \<open>except\<close> clauses, in their order.\<close>
  "error_hybrid e =
     (case e of
        JSONDecodeError m \<Rightarrow> syntax_error_hybrid m
      | _ \<Rightarrow> \<lparr>categoria = ''ERROR'', score = Fin 0,
             evidencia = JStr (''Fallo en inferencia: '' @ take 100 (exn_str e))\<rparr>)"

definition unreadable_hybrid :: result where
  "unreadable_hybrid =
     \<lparr>categoria = ''REVISION_MANUAL'', score = Fin 0,
      evidencia = JStr (''El modelo no retorn'' @ [CHR 0xF3] @ '' un JSON v''
                        @ [CHR 0xE1] @ ''lido.'')\<rparr>"

definition normalize_hybrid :: "pylib \<Rightarrow> string \<Rightarrow> result" where
  \<comment> \<open>\<open>classify_document_hybrid\<close> from the answer's \<open>content\<close> on.\<close>
  "normalize_hybrid lib raw =
     (let cleaned = isolate_json (py_strip raw)
      in if cleaned \<noteq> [] then
           (case json_loads lib cleaned of
              Inl e \<Rightarrow> error_hybrid e
            | Inr r \<Rightarrow>
                (case interpret_response lib py_round2 ''Sin evidencia detallada'' r of
                   Inl e \<Rightarrow> error_hybrid e
                 | Inr res \<Rightarrow> res))
         else unreadable_hybrid)"

section \<open>Processing one PDF\<close>

text \<open>
  The PDF library, the image encoder and the model endpoint are services the program calls;
  each call returns a value or raises.  A page carries the outcome of \<open>get_text("text")\<close>
  and of its rendering (\<open>get_pixmap\<close>, \<open>tobytes\<close>, \<open>Image.open\<close>).  The chat services
  return the answer's \<open>message.content\<close>; they are given the parts of the request that vary.
\<close>

record page =
  get_text :: "pyexn + string"
  get_image :: "pyexn + string"

record document =
  pages :: "page list"

record services =
  lib :: pylib
  fitz_open :: "string \<Rightarrow> pyexn + document"
  encode_image_to_base64 :: "string \<Rightarrow> pyexn + string"
  chat_text :: "string \<Rightarrow> pyexn + string"
  chat_vision :: "string \<Rightarrow> string \<Rightarrow> pyexn + string"

text \<open>What \<open>process_pdf\<close> does to the outside, in order.\<close>

datatype event = DocOpen | DocClose | ChatText string | ChatVision string string


definition corrupt :: "pyexn \<Rightarrow> result" where
  \<comment> \<open>\<open>except Exception as e\<close> of \<open>process_pdf\<close>, the same in both variants.\<close>
  "corrupt e = \<lparr>categoria = ''ARCHIVO_CORRUPTO'', score = Fin 0, evidencia = JStr (exn_str e)\<rparr>"

subsection \<open>Text-only variant\<close>

definition omitted_marker :: string where
  "omitted_marker = CHR 0x0A # ''...[CONTENIDO OMITIDO]...'' @ [CHR 0x0A]"

definition extract_text_smart :: "document \<Rightarrow> nat \<Rightarrow> pyexn + string" where
  "extract_text_smart doc max_chars =
     (let ps = pages doc; total_pages = length ps
      in case (if total_pages > 0
               then (case get_text (ps ! 0) of Inl e \<Rightarrow> Inl e
                     | Inr t \<Rightarrow> Inr (t @ [CHR 0x0A]))
               else Inr [])
         of Inl e \<Rightarrow> Inl e | Inr t1 \<Rightarrow>
        (case (if total_pages > 1
               then (case get_text (ps ! 1) of Inl e \<Rightarrow> Inl e
                     | Inr t \<Rightarrow> Inr (t1 @ take 500 t @ [CHR 0x0A]))
               else Inr t1)
         of Inl e \<Rightarrow> Inl e | Inr t2 \<Rightarrow>
        (case (if total_pages > 2
               then (case get_text (ps ! (total_pages - 1)) of Inl e \<Rightarrow> Inl e
                     | Inr t \<Rightarrow> Inr (t2 @ omitted_marker @ t))
               else Inr t2)
         of Inl e \<Rightarrow> Inl e | Inr full_text \<Rightarrow>
           Inr (take max_chars (py_strip (collapse_ws full_text))))))"

definition classify_document_text_only :: "services \<Rightarrow> string \<Rightarrow> result" where
  "classify_document_text_only sv text_content =
     (case chat_text sv text_content of
        Inl e \<Rightarrow> error_text e
      | Inr content \<Rightarrow> normalize_text (lib sv) content)"

definition vacio_text :: result where
  "vacio_text = \<lparr>categoria = ''VACIO'', score = Fin 0,
                  evidencia = JStr (''Sin p'' @ [CHR 0xE1] @ ''ginas'')\<rparr>"

definition scanned_text :: result where
  "scanned_text = \<lparr>categoria = ''REVISION_MANUAL'', score = Fin 0,
                    evidencia = JStr ''PDF es imagen (sin capa de texto)''\<rparr>"

definition process_pdf_text :: "services \<Rightarrow> string \<Rightarrow> result \<times> event list" where
  "process_pdf_text sv input_path =
     (case fitz_open sv input_path of
        Inl e \<Rightarrow> (corrupt e, [])
      | Inr doc \<Rightarrow>
          if length (pages doc) = 0 then (vacio_text, [DocOpen])
          else (case extract_text_smart doc 4000 of
                  Inl e \<Rightarrow> (corrupt e, [DocOpen])
                | Inr text_content \<Rightarrow>
                    if length text_content < 50 then (scanned_text, [DocOpen, DocClose])
                    else (classify_document_text_only sv text_content,
                          [DocOpen, ChatText text_content, DocClose])))"

subsection \<open>Vision variant\<close>

definition classify_document_hybrid ::
  "services \<Rightarrow> string \<Rightarrow> string \<Rightarrow> pyexn + result \<times> event list" where
  \<comment> \<open>The encoding of the image is outside the \<open>try\<close>: its exception leaves the function.\<close>
  "classify_document_hybrid sv img text_context =
     (case encode_image_to_base64 sv img of
        Inl e \<Rightarrow> Inl e
      | Inr base64_image \<Rightarrow>
          (let text_snippet = py_replace_char (CHR 0x22) (CHR 0x27)
                                (take 2000 (py_strip (collapse_ws text_context)))
           in Inr (case chat_vision sv base64_image text_snippet of
                     Inl e \<Rightarrow> error_hybrid e
                   | Inr content \<Rightarrow> normalize_hybrid (lib sv) content,
                   [ChatVision base64_image text_snippet])))"

definition vacio_hybrid :: result where
  "vacio_hybrid = \<lparr>categoria = ''VACIO'', score = Fin 0,
                    evidencia = JStr (''PDF sin p'' @ [CHR 0xE1] @ ''ginas'')\<rparr>"

definition process_pdf_hybrid :: "services \<Rightarrow> string \<Rightarrow> result \<times> event list" where
  "process_pdf_hybrid sv input_path =
     (case fitz_open sv input_path of
        Inl e \<Rightarrow> (corrupt e, [])
      | Inr doc \<Rightarrow>
          (case pages doc of
             [] \<Rightarrow> (vacio_hybrid, [DocOpen])
           | page # rest \<Rightarrow>
               (case get_text page of
                  Inl e \<Rightarrow> (corrupt e, [DocOpen])
                | Inr text_content \<Rightarrow>
                    (case get_image page of
                       Inl e \<Rightarrow> (corrupt e, [DocOpen])
                     | Inr img \<Rightarrow>
                         (case classify_document_hybrid sv img text_content of
                            Inl e \<Rightarrow> (corrupt e, [DocOpen])
                          | Inr (res, evs) \<Rightarrow> (res, DocOpen # evs @ [DocClose]))))))"

section \<open>Notions used in the properties\<close>

definition has_brace_pair :: "string \<Rightarrow> bool" where
  \<comment> \<open>Some \<open>{\<close> of the string is followed, anywhere later, by a \<open>}\<close>.\<close>
  "has_brace_pair s = (CHR ''}'' \<in> set (dropWhile (\<lambda>c. c \<noteq> CHR ''{'') s))"

fun in_unit :: "pyfloat \<Rightarrow> bool" where
  "in_unit (Fin x) = (0 \<le> x \<and> x \<le> 1)"
| "in_unit f = False"

definition raised_in_try ::
  "pylib \<Rightarrow> (pyfloat \<Rightarrow> pyfloat) \<Rightarrow> string \<Rightarrow> string \<Rightarrow> pyexn option" where
  \<comment> \<open>The exception the statements of the \<open>try\<close> raise on an answer, if any.\<close>
  "raised_in_try lb rnd dflt raw =
     (let cleaned = isolate_json (py_strip raw)
      in if cleaned \<noteq> [] then
           (case json_loads lb cleaned of
              Inl e \<Rightarrow> Some e
            | Inr r \<Rightarrow> (case interpret_response lb rnd dflt r of
                         Inl e \<Rightarrow> Some e | Inr res \<Rightarrow> None))
         else None)"

definition normalization_fails ::
  "pylib \<Rightarrow> (pyfloat \<Rightarrow> pyfloat) \<Rightarrow> string \<Rightarrow> string \<Rightarrow> bool" where
  \<comment> \<open>Nothing is isolated, or the parser or a later statement of the \<open>try\<close> raises.\<close>
  "normalization_fails lb rnd dflt raw =
     (isolate_json (py_strip raw) = [] \<or> raised_in_try lb rnd dflt raw \<noteq> None)"

fun evidence_mentions :: "string \<Rightarrow> json \<Rightarrow> bool" where
  \<comment> \<open>The evidence is a string in which the given text occurs.\<close>
  "evidence_mentions raw (JStr e) = py_contains raw e"
| "evidence_mentions raw v = False"




fun number_value :: "json \<Rightarrow> real option" where
  \<comment> \<open>The value of a JSON number.\<close>
  "number_value (JInt i) = Some (of_int i)"
| "number_value (JFloat (Fin x)) = Some x"
| "number_value v = None"

fun clamp_unit :: "pyfloat \<Rightarrow> pyfloat" where
  \<comment> \<open>Clamping to the unit interval as the specification words it; the code sends
      \<open>NaN\<close> to 1.0.\<close>
  "clamp_unit (Fin x) = Fin (max 0 (min 1 x))"
| "clamp_unit PosInf = Fin 1"
| "clamp_unit NegInf = Fin 0"
| "clamp_unit NaN = Fin 1"

fun expected_score :: "pylib \<Rightarrow> json option \<Rightarrow> pyfloat option" where
  \<comment> \<open>The score the specification's step 5 prescribes for a score field, before rounding;
      none for a field that is neither a string nor a number.\<close>
  "expected_score lb None = Some (Fin (1 / 2))"
| "expected_score lb (Some (JStr t)) =
     (case py_float lb (py_replace_char (CHR '','') (CHR ''.'') t) of
        Some f \<Rightarrow> Some (clamp_unit f)
      | None \<Rightarrow> Some (Fin (1 / 2)))"
| "expected_score lb (Some (JInt i)) = Some (clamp_unit (Fin (of_int i)))"
| "expected_score lb (Some (JFloat f)) = Some (clamp_unit f)"
| "expected_score lb (Some (JBool b)) = Some (Fin (if b then 1 else 0))"
| "expected_score lb (Some v) = None"

section \<open>Sample inputs\<close>

text \<open>
  The values of \<open>json.loads\<close> and \<open>float\<close> at the strings of the examples below.  Outside
  these tables both raise; no example depends on that.  Of a key that occurs twice in an
  object \<open>json.loads\<close> keeps the last value.
\<close>

definition escaped_backtick :: string where
  \<comment> \<open>The JSON escape of a backtick: a backslash and \<open>u0060\<close>.\<close>
  "escaped_backtick = CHR 0x5C # ''u0060''"

definition escaped_fence_answer :: string where
  \<comment> \<open>An answer whose evidence is three backticks, each written as its escape.\<close>
  "escaped_fence_answer =
     ''{\"categoria\": \"CONTRATO\", \"score\": 0.5, \"evidencia\": \"''
     @ escaped_backtick @ escaped_backtick @ escaped_backtick @ ''\"}''"

definition loads_table :: "(string \<times> (pyexn + json)) list" where
  "loads_table =
     [(''{\"categoria\": \"CONTRATOS\", \"score\": \"0,91\", \"evidencia\": \"Firma\"}'',
         Inr (JObj [(''categoria'', JStr ''CONTRATOS''), (''score'', JStr ''0,91''),
                    (''evidencia'', JStr ''Firma'')])),
      (''{\"categoria\": \"CONTRATO\", \"score\": 0.8125, \"evidencia\": \"Firma\"}'',
         Inr (JObj [(''categoria'', JStr ''CONTRATO''), (''score'', JFloat (Fin 0.8125)),
                    (''evidencia'', JStr ''Firma'')])),
      (''{\"categoria\": \"CONTRATO\", \"score\": 0.81, \"evidencia\": \"Firma\"}'',
         Inr (JObj [(''categoria'', JStr ''CONTRATO''), (''score'', JFloat (Fin 0.81)),
                    (''evidencia'', JStr ''Firma'')])),
      (''{\"categoria\": \"CONTRATO\", \"score\": 0.91, \"evidencia\": \"Firma\"}'',
         Inr (JObj [(''categoria'', JStr ''CONTRATO''), (''score'', JFloat (Fin 0.91)),
                    (''evidencia'', JStr ''Firma'')])),
      (''{\"categoria\": \"CONTRATOS\", \"score\": null}'',
         Inr (JObj [(''categoria'', JStr ''CONTRATOS''), (''score'', JNull)])),
      (''{\"score\": null}'', Inr (JObj [(''score'', JNull)])),
      (''{\"score\": 0.75}'', Inr (JObj [(''score'', JFloat (Fin 0.75))])),
      (''{\"categoria\": 5}'', Inr (JObj [(''categoria'', JInt 5)])),
      (''{\"categoria\": \"ERROR\", \"score\": 0.0, \"evidencia\": \"'int' object has no attribute 'upper'\"}'',
         Inr (JObj [(''categoria'', JStr ''ERROR''), (''score'', JFloat (Fin 0)),
                    (''evidencia'', JStr (quoted ''int'' @ '' object has no attribute ''
                                          @ quoted ''upper''))])),
      (''{\"categoria\": \"CONTRATO\", \"score\": 0.5, \"```score\": 0.9}'',
         Inr (JObj [(''categoria'', JStr ''CONTRATO''), (''score'', JFloat (Fin 0.5)),
                    (''```score'', JFloat (Fin 0.9))])),
      (''{\"categoria\": \"CONTRATO\", \"score\": 0.5, \"score\": 0.9}'',
         Inr (JObj [(''categoria'', JStr ''CONTRATO''), (''score'', JFloat (Fin 0.9))])),
      (''{\"categoria\": \"CONTRATO\", \"score\": 0.5, \"evidencia\": \"```\"}'',
         Inr (JObj [(''categoria'', JStr ''CONTRATO''), (''score'', JFloat (Fin 0.5)),
                    (''evidencia'', JStr ''```'')])),
      (''{\"categoria\": \"CONTRATO\", \"score\": 0.5, \"evidencia\": \"\"}'',
         Inr (JObj [(''categoria'', JStr ''CONTRATO''), (''score'', JFloat (Fin 0.5)),
                    (''evidencia'', JStr [])])),
      (''{x}'',
         Inl (JSONDecodeError
           ''Expecting property name enclosed in double quotes: line 1 column 2 (char 1)'')),
      (escaped_fence_answer,
         Inr (JObj [(''categoria'', JStr ''CONTRATO''), (''score'', JFloat (Fin 0.5)),
                    (''evidencia'', JStr ''```'')]))]"

definition float_table :: "(string \<times> pyfloat) list" where
  "float_table = [(''0.91'', Fin 0.91)]"

definition sample_lib :: pylib where
  "sample_lib =
     \<lparr>json_loads = (\<lambda>s. case map_of loads_table s of
                          Some r \<Rightarrow> r
                        | None \<Rightarrow> Inl (JSONDecodeError
                                     ''Expecting value: line 1 column 1 (char 0)'')),
      py_float = map_of float_table\<rparr>"

definition sample_page :: "string \<Rightarrow> page" where
  "sample_page t = \<lparr>get_text = Inr t, get_image = Inr ''png''\<rparr>"

definition sample_services :: services where
  \<comment> \<open>Seven files, of which the last three have a first page whose text access, rendering
      or image encoding raises; the model answers every request with the same JSON object.\<close>
  "sample_services =
     \<lparr>lib = sample_lib,
      fitz_open = (\<lambda>p.
         if p = ''/data/vacio.pdf'' then Inr \<lparr>pages = []\<rparr>
         else if p = ''/data/corto.pdf''
           then Inr \<lparr>pages = [sample_page ''RESOLUCION No 123 de 2026, por la cual se ordena.'']\<rparr>
         else if p = ''/data/largo.pdf''
           then Inr \<lparr>pages = [sample_page ''RESOLUCION No 1234 de 2026, por la cual se ordena.'']\<rparr>
         else if p = ''/data/escaneado.pdf'' then Inr \<lparr>pages = [sample_page []]\<rparr>
         else if p = ''/data/sin_texto.pdf''
           then Inr \<lparr>pages = [\<lparr>get_text = Inl (OtherException ''cannot read page''),
                                get_image = Inr ''png''\<rparr>]\<rparr>
         else if p = ''/data/sin_imagen.pdf''
           then Inr \<lparr>pages = [\<lparr>get_text = Inr ''CONTRATO DE PRESTACION DE SERVICIOS'',
                                get_image = Inl (OtherException ''cannot render page'')\<rparr>]\<rparr>
         else if p = ''/data/rgba.pdf''
           then Inr \<lparr>pages = [\<lparr>get_text = Inr ''CONTRATO DE PRESTACION DE SERVICIOS'',
                                get_image = Inr ''rgba''\<rparr>]\<rparr>
         else Inl (OtherException ''no such file'')),
      encode_image_to_base64 = (\<lambda>img.
         if img = ''rgba'' then Inl (OtherException ''cannot write mode RGBA as JPEG'')
         else Inr ''cG5n''),
      chat_text = (\<lambda>t.
         Inr ''{\"categoria\": \"CONTRATO\", \"score\": 0.8125, \"evidencia\": \"Firma\"}''),
      chat_vision = (\<lambda>b t.
         Inr ''{\"categoria\": \"CONTRATO\", \"score\": 0.8125, \"evidencia\": \"Firma\"}'')\<rparr>"

section \<open>Isolation of the JSON object\<close>

lemma has_brace_pair_subseq: "has_brace_pair s \<longleftrightarrow> subseq ''{}'' s"
  unfolding has_brace_pair_def
proof (induction s)
  case Nil show ?case by simp
next
  case (Cons a s)
  show ?case
  proof (cases "a = CHR ''{''")
    case True
    then show ?thesis by (auto simp: subseq_singleton_left)
  next
    case False
    then show ?thesis using Cons by (simp add: subseq_Cons2_neq)
  qed
qed

lemma subseq_strip_fences: "subseq (strip_fences s) s"
proof (induction s rule: strip_fences.induct)
  case 1 show ?case by simp
next
  case (2 c cs)
  have d: "subseq (drop n cs) (c # cs)" for n
    by (meson list_emb_Cons subseq_order.order_trans suffix_drop suffix_imp_subseq subseq_order.order_refl)
  show ?case
    using 2 d[of 6] d[of 2]
    by (auto simp del: strip_fences.simps simp add: strip_fences.simps(2)[of c cs] intro: subseq_order.order_trans)
qed

lemma prefix_rev_dropWhile: "prefix (rev (dropWhile P (rev t))) t"
proof -
  have "rev t = takeWhile P (rev t) @ dropWhile P (rev t)" by simp
  then have "t = rev (dropWhile P (rev t)) @ rev (takeWhile P (rev t))"
    by (metis rev_append rev_rev_ident)
  then show ?thesis by (metis prefixI)
qed

lemma subseq_py_strip: "subseq (py_strip s) s"
proof -
  have "subseq (py_strip s) (dropWhile py_isspace s)"
    unfolding py_strip_def by (rule prefix_imp_subseq[OF prefix_rev_dropWhile])
  moreover have "subseq (dropWhile py_isspace s) s"
    by (rule suffix_imp_subseq[OF suffix_dropWhile])
  ultimately show ?thesis by (rule subseq_order.order_trans)
qed

lemma isolate_json_Nil_iff:
  "isolate_json s = [] \<longleftrightarrow> \<not> has_brace_pair (py_strip (strip_fences s))"
  by (auto simp: isolate_json_def drop_after_brace_def drop_before_brace_def has_brace_pair_def)

lemma no_pair_after_cleaning:
  assumes "\<not> has_brace_pair raw"
  shows "isolate_json (py_strip raw) = []"
proof -
  have "subseq (py_strip (strip_fences (py_strip raw))) raw"
    by (meson subseq_order.order_trans subseq_py_strip subseq_strip_fences)
  then have "has_brace_pair (py_strip (strip_fences (py_strip raw))) \<Longrightarrow> has_brace_pair raw"
    unfolding has_brace_pair_subseq by (rule subseq_order.order_trans[rotated])
  with assms show ?thesis by (auto simp: isolate_json_Nil_iff)
qed

text \<open>
  C6.  A raw answer in which no \<open>{\<close> is followed by a \<open>}\<close> is normalized, in both
  variants, to category \<open>REVISION_MANUAL\<close> with score 0.0.  The result is the fixed
  sentinel whatever the JSON parser would do: the parser is not consulted.
\<close>

theorem no_brace_pair_revision_manual:
  assumes "\<not> has_brace_pair raw"
  shows "normalize_text lb raw = unreadable_text
       \<and> normalize_hybrid lb raw = unreadable_hybrid
       \<and> categoria (normalize_text lb raw) = ''REVISION_MANUAL''
       \<and> score (normalize_text lb raw) = Fin 0
       \<and> categoria (normalize_hybrid lb raw) = ''REVISION_MANUAL''
       \<and> score (normalize_hybrid lb raw) = Fin 0"
  using no_pair_after_cleaning[OF assms]
  by (simp add: normalize_text_def normalize_hybrid_def unreadable_text_def
      unreadable_hybrid_def)

theorem no_brace_pair_revision_manual_witness:
  "\<not> has_brace_pair ''Lo siento, no puedo procesar esto.''
   \<and> categoria (normalize_text sample_lib ''Lo siento, no puedo procesar esto.'')
       = ''REVISION_MANUAL''
   \<and> score (normalize_hybrid sample_lib ''Lo siento, no puedo procesar esto.'') = Fin 0"
proof -
  have h: "\<not> has_brace_pair ''Lo siento, no puedo procesar esto.''"
    by (simp add: has_brace_pair_def)
  show ?thesis
    using h no_brace_pair_revision_manual[OF h, of sample_lib] by blast
qed

section \<open>The score stays in the unit interval\<close>

lemma round_half_even_bounds:
  assumes "0 \<le> y" "y \<le> 100"
  shows "0 \<le> round_half_even y \<and> round_half_even y \<le> 100"
proof (cases "y = 100")
  case True
  then show ?thesis by (simp add: round_half_even_def)
next
  case False
  with assms have "y < 100" by simp
  then have f1: "\<lfloor>y\<rfloor> < 100" by (simp add: floor_less_iff)
  have f0: "0 \<le> \<lfloor>y\<rfloor>" using assms by simp
  show ?thesis
    unfolding round_half_even_def Let_def using f0 f1 by (simp del: zero_le_floor)
qed

lemma in_unit_round2: "in_unit f \<Longrightarrow> in_unit (py_round2 f)"
proof (cases f)
  case (Fin x)
  assume "in_unit f"
  with Fin have "0 \<le> x * 100" "x * 100 \<le> 100" by simp_all
  from round_half_even_bounds[OF this] Fin show ?thesis by simp
qed simp_all

lemma in_unit_clamp: "py_min1 v = Inr m \<Longrightarrow> in_unit (py_max0 m)"
proof -
  assume a: "py_min1 v = Inr m"
  then obtain x where x: "as_number v = Some x" and m: "m = (if float_lt x (Fin 1) then x else Fin 1)"
    by (auto simp: py_min1_def split: option.splits)
  show ?thesis
    by (cases x) (auto simp: m py_max0_def)
qed

lemma interpret_in_unit:
  assumes "\<And>f. in_unit f \<Longrightarrow> in_unit (rnd f)"
    and "interpret_response lb rnd d r = Inr res"
  shows "in_unit (score res)"
  using assms(2) assms(1) in_unit_clamp
  by (auto simp: interpret_response_def split: sum.splits)

lemma in_unit_error_text: "in_unit (score (error_text e))"
  by (simp add: error_text_def)

lemma in_unit_error_hybrid: "in_unit (score (error_hybrid e))"
  by (cases e) (simp_all add: error_hybrid_def syntax_error_hybrid_def)

lemma in_unit_normalize_text: "in_unit (score (normalize_text lb raw))"
  using interpret_in_unit[of "\<lambda>x. x" lb]
  by (auto simp: normalize_text_def Let_def unreadable_text_def in_unit_error_text split: sum.splits)

lemma in_unit_normalize_hybrid: "in_unit (score (normalize_hybrid lb raw))"
  using interpret_in_unit[of py_round2 lb, OF in_unit_round2]
  by (auto simp: normalize_hybrid_def Let_def unreadable_hybrid_def in_unit_error_hybrid split: sum.splits)

lemma in_unit_process_pdf_text: "in_unit (score (fst (process_pdf_text sv p)))"
  by (auto simp: process_pdf_text_def corrupt_def vacio_text_def scanned_text_def
      classify_document_text_only_def in_unit_error_text in_unit_normalize_text split: sum.splits)

lemma in_unit_process_pdf_hybrid: "in_unit (score (fst (process_pdf_hybrid sv p)))"
  by (auto simp: process_pdf_hybrid_def corrupt_def vacio_hybrid_def
      classify_document_hybrid_def Let_def in_unit_error_hybrid in_unit_normalize_hybrid split: sum.splits list.splits)

text \<open>
  C3.  Every result has its score in the closed interval from 0.0 to 1.0: the result of
  normalizing any raw answer, in both variants and on every path, and the result of
  \<open>process_pdf\<close> for any file, in both variants.
\<close>

theorem score_in_unit_interval:
  "in_unit (score (normalize_text lb raw)) \<and>
   in_unit (score (normalize_hybrid lb raw)) \<and>
   in_unit (score (fst (process_pdf_text sv p))) \<and>
   in_unit (score (fst (process_pdf_hybrid sv p)))"
  by (simp add: in_unit_normalize_text in_unit_normalize_hybrid in_unit_process_pdf_text
      in_unit_process_pdf_hybrid)

section \<open>Interpreting a parsed object\<close>

lemma clamp_as_spec:
  assumes "as_number v = Some x"
  shows "\<exists>m. py_min1 v = Inr m \<and> py_max0 m = clamp_unit x"
  using assms by (cases x) (auto simp: py_min1_def py_max0_def)


lemma read_score_clamped:
  assumes "expected_score lb (Some s) = Some sc"
  shows "\<exists>m. py_min1 (read_score lb s) = Inr m \<and> py_max0 m = sc"
proof (cases s)
  case (JStr t)
  show ?thesis
  proof (cases "py_float lb (py_replace_char (CHR '','') (CHR ''.'') t)")
    case None
    with JStr assms show ?thesis by (auto simp: read_score_def py_min1_def py_max0_def)
  next
    case (Some f)
    with JStr assms clamp_as_spec[of "JFloat f" f] show ?thesis by (simp add: read_score_def)
  qed
next
  case (JBool b)
  with assms show ?thesis by (cases b) (auto simp: read_score_def py_min1_def py_max0_def)
next
  case (JInt i)
  with assms clamp_as_spec[of "JInt i" "Fin (of_int i)"] show ?thesis by (simp add: read_score_def)
next
  case (JFloat f)
  with assms clamp_as_spec[of "JFloat f" f] show ?thesis by (simp add: read_score_def)
qed (use assms in simp_all)

lemma score_field_clamped:
  assumes "expected_score lb (map_of kvs ''score'') = Some sc"
  shows "\<exists>s m. dict_get (JObj kvs) ''score'' (JFloat (Fin (1 / 2))) = Inr s
           \<and> py_min1 (read_score lb s) = Inr m \<and> py_max0 m = sc"
proof (cases "map_of kvs ''score''")
  case None
  with assms show ?thesis by (auto simp: read_score_def py_min1_def py_max0_def)
next
  case (Some s)
  with assms read_score_clamped[of lb s sc] show ?thesis by simp
qed

lemma interpret_object:
  assumes "expected_score lb (map_of kvs ''score'') = Some sc"
    and "map_of kvs ''categoria'' = Some (JStr c) \<or> (map_of kvs ''categoria'' = None \<and> c = [])"
  shows "interpret_response lb rnd d (JObj kvs) =
           Inr \<lparr>categoria = normalize_cat (py_upper c), score = rnd sc,
                evidencia = (case map_of kvs ''evidencia'' of Some v \<Rightarrow> v | None \<Rightarrow> JStr d)\<rparr>"
proof -
  from score_field_clamped[OF assms(1)] obtain s m where
    "dict_get (JObj kvs) ''score'' (JFloat (Fin (1 / 2))) = Inr s"
    "py_min1 (read_score lb s) = Inr m" "py_max0 m = sc" by blast
  moreover have "dict_get (JObj kvs) ''categoria'' (JStr []) = Inr (JStr c)"
    using assms(2) by auto
  ultimately show ?thesis
    by (simp add: interpret_response_def)
qed

lemma py_upper_valid: "c \<in> set CATEGORIAS_VALIDAS \<Longrightarrow> py_upper c = c"
  by (auto simp: CATEGORIAS_VALIDAS_def py_upper_def)

lemma normalize_cat_valid: "c \<in> set CATEGORIAS_VALIDAS \<Longrightarrow> normalize_cat c = c"
  by (auto simp: CATEGORIAS_VALIDAS_def normalize_cat_def py_replace_char_def py_endswith_char_def)



lemma number_expected:
  assumes "number_value s = Some x" "0 \<le> x" "x \<le> 1"
  shows "expected_score lb (Some s) = Some (Fin x)"
proof (cases s)
  case (JFloat f)
  with assms show ?thesis by (cases f) auto
qed (use assms in \<open>auto simp: min_def max_def\<close>)

text \<open>
  C2, as amended.  When the text that the cleaning steps isolate from the answer is not empty
  and \<open>json.loads\<close> parses it to an object whose category is one of the five valid labels
  and whose score is a number between 0 and 1, the text-only variant returns that category
  and that score unchanged; the vision variant returns that category and the score rounded
  to two decimal places.
\<close>

theorem valid_response_kept:
  assumes "isolate_json (py_strip raw) \<noteq> []"
    and "json_loads lb (isolate_json (py_strip raw)) = Inr (JObj kvs)"
    and "map_of kvs ''categoria'' = Some (JStr c)"
    and "c \<in> set CATEGORIAS_VALIDAS"
    and "map_of kvs ''score'' = Some s"
    and "number_value s = Some x" and "0 \<le> x" and "x \<le> 1"
  shows "categoria (normalize_text lb raw) = c \<and> score (normalize_text lb raw) = Fin x
       \<and> categoria (normalize_hybrid lb raw) = c
       \<and> score (normalize_hybrid lb raw) = py_round2 (Fin x)"
proof -
  have e: "expected_score lb (map_of kvs ''score'') = Some (Fin x)"
    using assms(5) number_expected[OF assms(6-8)] by simp
  have c: "normalize_cat (py_upper c) = c"
    using assms(4) by (simp add: py_upper_valid normalize_cat_valid)
  show ?thesis
    using assms(1,2) c
    by (simp add: normalize_text_def normalize_hybrid_def
        interpret_object[OF e disjI1[OF assms(3)]])
qed

theorem valid_response_kept_witness:
  "categoria (normalize_text sample_lib
      ''{\"categoria\": \"CONTRATO\", \"score\": 0.8125, \"evidencia\": \"Firma\"}'') = ''CONTRATO''
   \<and> score (normalize_text sample_lib
      ''{\"categoria\": \"CONTRATO\", \"score\": 0.8125, \"evidencia\": \"Firma\"}'') = Fin 0.8125
   \<and> score (normalize_hybrid sample_lib
      ''{\"categoria\": \"CONTRATO\", \"score\": 0.8125, \"evidencia\": \"Firma\"}'') = Fin 0.81"
proof -
  let ?raw = "''{\"categoria\": \"CONTRATO\", \"score\": 0.8125, \"evidencia\": \"Firma\"}''"
  let ?kvs = "[(''categoria'', JStr ''CONTRATO''), (''score'', JFloat (Fin 0.8125)),
               (''evidencia'', JStr ''Firma'')]"
  have i: "isolate_json (py_strip ?raw) = ?raw"
    by (simp add: isolate_json_def drop_after_brace_def drop_before_brace_def py_strip_def
        py_isspace_def)
  have 1: "isolate_json (py_strip ?raw) \<noteq> []" unfolding i by simp
  have 2: "json_loads sample_lib (isolate_json (py_strip ?raw)) = Inr (JObj ?kvs)"
    unfolding i by (simp add: sample_lib_def loads_table_def)
  have 3: "map_of ?kvs ''categoria'' = Some (JStr ''CONTRATO'')" by simp
  have 4: "''CONTRATO'' \<in> set CATEGORIAS_VALIDAS" by (simp add: CATEGORIAS_VALIDAS_def)
  have 5: "map_of ?kvs ''score'' = Some (JFloat (Fin 0.8125))" by simp
  have 6: "number_value (JFloat (Fin 0.8125)) = Some 0.8125" by simp
  have r: "py_round2 (Fin 0.8125) = Fin 0.81" by (simp add: round_half_even_def)
  show ?thesis
    using valid_response_kept[OF 1 2 3 4 5 6] r by simp
qed

text \<open>
  Two answers that are JSON objects with a valid category and a score between 0 and 1, and
  that come back changed.  In the vision variant the score 0.8125 comes back as 0.81.  In
  the text-only variant an object with a further key \<open>```score\<close> of value 0.9 comes back
  with score 0.9 instead of 0.5: the removal of the code-fence marker turns that key into a
  second \<open>score\<close>, of which the parser keeps the last value.
\<close>

theorem valid_response_altered_counterexample:
  "json_loads sample_lib (isolate_json (py_strip
      ''{\"categoria\": \"CONTRATO\", \"score\": 0.8125, \"evidencia\": \"Firma\"}''))
     = Inr (JObj [(''categoria'', JStr ''CONTRATO''), (''score'', JFloat (Fin 0.8125)),
                  (''evidencia'', JStr ''Firma'')])
   \<and> ''CONTRATO'' \<in> set CATEGORIAS_VALIDAS
   \<and> score (normalize_hybrid sample_lib
      ''{\"categoria\": \"CONTRATO\", \"score\": 0.8125, \"evidencia\": \"Firma\"}'') = Fin 0.81
   \<and> Fin 0.81 \<noteq> Fin 0.8125
   \<and> json_loads sample_lib ''{\"categoria\": \"CONTRATO\", \"score\": 0.5, \"```score\": 0.9}''
     = Inr (JObj [(''categoria'', JStr ''CONTRATO''), (''score'', JFloat (Fin 0.5)),
                  (''```score'', JFloat (Fin 0.9))])
   \<and> categoria (normalize_text sample_lib
      ''{\"categoria\": \"CONTRATO\", \"score\": 0.5, \"```score\": 0.9}'') = ''CONTRATO''
   \<and> score (normalize_text sample_lib
      ''{\"categoria\": \"CONTRATO\", \"score\": 0.5, \"```score\": 0.9}'') = Fin 0.9
   \<and> Fin 0.9 \<noteq> Fin 0.5"
proof -
  let ?raw = "''{\"categoria\": \"CONTRATO\", \"score\": 0.8125, \"evidencia\": \"Firma\"}''"
  let ?key = "''{\"categoria\": \"CONTRATO\", \"score\": 0.5, \"```score\": 0.9}''"
  let ?dup = "''{\"categoria\": \"CONTRATO\", \"score\": 0.5, \"score\": 0.9}''"
  have i: "isolate_json (py_strip ?raw) = ?raw"
    by (simp add: isolate_json_def drop_after_brace_def drop_before_brace_def py_strip_def
        py_isspace_def)
  have l: "json_loads sample_lib ?raw =
             Inr (JObj [(''categoria'', JStr ''CONTRATO''), (''score'', JFloat (Fin 0.8125)),
                        (''evidencia'', JStr ''Firma'')])"
    by (simp add: sample_lib_def loads_table_def)
  have v: "''CONTRATO'' \<in> set CATEGORIAS_VALIDAS" by (simp add: CATEGORIAS_VALIDAS_def)
  have h: "normalize_hybrid sample_lib ?raw =
          \<lparr>categoria = ''CONTRATO'', score = Fin 0.81, evidencia = JStr ''Firma''\<rparr>"
    by (simp add: normalize_hybrid_def i l interpret_response_def py_upper_def
        normalize_cat_def py_replace_char_def py_endswith_char_def CATEGORIAS_VALIDAS_def
        read_score_def py_min1_def py_max0_def round_half_even_def)
  have j: "isolate_json (py_strip ?key) = ?dup"
    by (simp add: isolate_json_def drop_after_brace_def drop_before_brace_def py_strip_def
        py_isspace_def)
  have k: "json_loads sample_lib ?key =
             Inr (JObj [(''categoria'', JStr ''CONTRATO''), (''score'', JFloat (Fin 0.5)),
                        (''```score'', JFloat (Fin 0.9))])"
    by (simp add: sample_lib_def loads_table_def)
  have d: "json_loads sample_lib ?dup =
             Inr (JObj [(''categoria'', JStr ''CONTRATO''), (''score'', JFloat (Fin (9 / 10)))])"
    by (simp add: sample_lib_def loads_table_def)
  have t: "normalize_text sample_lib ?key =
          \<lparr>categoria = ''CONTRATO'', score = Fin (9 / 10), evidencia = JStr ''Sin evidencia''\<rparr>"
    by (simp add: normalize_text_def j d interpret_response_def py_upper_def
        normalize_cat_def py_replace_char_def py_endswith_char_def CATEGORIAS_VALIDAS_def
        read_score_def py_min1_def py_max0_def)
  show ?thesis unfolding i l k using v by (simp add: h t)
qed







section \<open>Failure paths of the normalizer\<close>

lemma raised_text:
  "raised_in_try lb (\<lambda>x. x) ''Sin evidencia'' raw = Some e \<Longrightarrow> normalize_text lb raw = error_text e"
  by (auto simp: raised_in_try_def normalize_text_def Let_def split: if_splits sum.splits)

lemma raised_hybrid:
  "raised_in_try lb py_round2 ''Sin evidencia detallada'' raw = Some e
     \<Longrightarrow> normalize_hybrid lb raw = error_hybrid e"
  by (auto simp: raised_in_try_def normalize_hybrid_def Let_def split: if_splits sum.splits)

lemma nothing_isolated:
  assumes "isolate_json (py_strip raw) = []"
  shows "raised_in_try lb rnd d raw = None" "normalize_text lb raw = unreadable_text"
    "normalize_hybrid lb raw = unreadable_hybrid"
  using assms by (simp_all add: raised_in_try_def normalize_text_def normalize_hybrid_def)

text \<open>
  C1, as amended.  The normalizer returns a result for every answer: each exception raised
  inside the \<open>try\<close> is mapped to a result by the handlers.  When nothing is isolated, or the
  parser or a later statement raises, the result is \<open>REVISION_MANUAL\<close> or \<open>ERROR\<close> with
  score 0.0, and its evidence is a fixed message (nothing isolated) or the exception's text,
  cut to 100 characters (in the vision variant after a fixed prefix, and cut to 50 for a
  JSON syntax error).  The raw answer is not part of the evidence.
\<close>

theorem failure_gives_sentinel:
  "(normalization_fails lb (\<lambda>x. x) ''Sin evidencia'' raw \<longrightarrow>
      categoria (normalize_text lb raw) \<in> {''REVISION_MANUAL'', ''ERROR''}
    \<and> score (normalize_text lb raw) = Fin 0
    \<and> evidencia (normalize_text lb raw) =
        (case raised_in_try lb (\<lambda>x. x) ''Sin evidencia'' raw of
           None \<Rightarrow> JStr ''JSON ilegible''
         | Some e \<Rightarrow> JStr (take 100 (exn_str e))))
   \<and> (normalization_fails lb py_round2 ''Sin evidencia detallada'' raw \<longrightarrow>
      categoria (normalize_hybrid lb raw) \<in> {''REVISION_MANUAL'', ''ERROR''}
    \<and> score (normalize_hybrid lb raw) = Fin 0
    \<and> evidencia (normalize_hybrid lb raw) =
        (case raised_in_try lb py_round2 ''Sin evidencia detallada'' raw of
           None \<Rightarrow> evidencia unreadable_hybrid
         | Some (JSONDecodeError m) \<Rightarrow> JStr (''Error de sintaxis JSON: '' @ take 50 m)
         | Some e \<Rightarrow> JStr (''Fallo en inferencia: '' @ take 100 (exn_str e))))"
proof (intro conjI impI)
  assume f: "normalization_fails lb (\<lambda>x. x) ''Sin evidencia'' raw"
  show "categoria (normalize_text lb raw) \<in> {''REVISION_MANUAL'', ''ERROR''}"
    using f nothing_isolated[of raw lb] raised_text[of lb raw]
    by (auto simp: normalization_fails_def unreadable_text_def error_text_def)
  show "score (normalize_text lb raw) = Fin 0"
    using f nothing_isolated[of raw lb] raised_text[of lb raw]
    by (auto simp: normalization_fails_def unreadable_text_def error_text_def)
  show "evidencia (normalize_text lb raw) =
        (case raised_in_try lb (\<lambda>x. x) ''Sin evidencia'' raw of
           None \<Rightarrow> JStr ''JSON ilegible''
         | Some e \<Rightarrow> JStr (take 100 (exn_str e)))"
    using f nothing_isolated[of raw lb] raised_text[of lb raw]
    by (auto simp: normalization_fails_def unreadable_text_def error_text_def)
next
  assume f: "normalization_fails lb py_round2 ''Sin evidencia detallada'' raw"
  show "categoria (normalize_hybrid lb raw) \<in> {''REVISION_MANUAL'', ''ERROR''}"
    using f nothing_isolated[of raw lb] raised_hybrid[of lb raw]
    by (auto simp: normalization_fails_def unreadable_hybrid_def error_hybrid_def
        syntax_error_hybrid_def split: pyexn.splits)
  show "score (normalize_hybrid lb raw) = Fin 0"
    using f nothing_isolated[of raw lb] raised_hybrid[of lb raw]
    by (auto simp: normalization_fails_def unreadable_hybrid_def error_hybrid_def
        syntax_error_hybrid_def split: pyexn.splits)
  show "evidencia (normalize_hybrid lb raw) =
        (case raised_in_try lb py_round2 ''Sin evidencia detallada'' raw of
           None \<Rightarrow> evidencia unreadable_hybrid
         | Some (JSONDecodeError m) \<Rightarrow> JStr (''Error de sintaxis JSON: '' @ take 50 m)
         | Some e \<Rightarrow> JStr (''Fallo en inferencia: '' @ take 100 (exn_str e)))"
    using f nothing_isolated[of raw lb] raised_hybrid[of lb raw]
    by (auto simp: normalization_fails_def unreadable_hybrid_def error_hybrid_def
        syntax_error_hybrid_def split: pyexn.splits)
qed

theorem failure_gives_sentinel_witness:
  "normalization_fails sample_lib (\<lambda>x. x) ''Sin evidencia'' ''{x}''
   \<and> normalization_fails sample_lib py_round2 ''Sin evidencia detallada'' ''{x}''
   \<and> categoria (normalize_text sample_lib ''{x}'') \<in> {''REVISION_MANUAL'', ''ERROR''}
   \<and> score (normalize_text sample_lib ''{x}'') = Fin 0
   \<and> score (normalize_hybrid sample_lib ''{x}'') = Fin 0
   \<and> evidencia (normalize_hybrid sample_lib ''{x}'') =
       JStr ''Error de sintaxis JSON: Expecting property name enclosed in double quotes:''"
proof -
  have i: "isolate_json (py_strip ''{x}'') = ''{x}''"
    by (simp add: isolate_json_def drop_after_brace_def drop_before_brace_def py_strip_def
        py_isspace_def)
  have r: "raised_in_try sample_lib rnd d ''{x}'' = Some (JSONDecodeError
           ''Expecting property name enclosed in double quotes: line 1 column 2 (char 1)'')"
    for rnd d
    by (simp add: raised_in_try_def i sample_lib_def loads_table_def)
  have 1: "normalization_fails sample_lib (\<lambda>x. x) ''Sin evidencia'' ''{x}''"
    by (simp add: normalization_fails_def r)
  have 2: "normalization_fails sample_lib py_round2 ''Sin evidencia detallada'' ''{x}''"
    by (simp add: normalization_fails_def r)
  show ?thesis
    using 1 2 failure_gives_sentinel[of sample_lib "''{x}''"] by (simp add: r)
qed

text \<open>
  For an answer without braces the evidence is \<open>JSON ilegible\<close>, in which the raw answer
  does not occur.
\<close>

theorem evidence_without_raw_counterexample:
  "normalization_fails sample_lib (\<lambda>x. x) ''Sin evidencia'' ''Lo siento, no puedo procesar esto.''
   \<and> evidencia (normalize_text sample_lib ''Lo siento, no puedo procesar esto.'')
       = JStr ''JSON ilegible''
   \<and> \<not> evidence_mentions ''Lo siento, no puedo procesar esto.''
         (evidencia (normalize_text sample_lib ''Lo siento, no puedo procesar esto.''))"
proof -
  have i: "isolate_json (py_strip ''Lo siento, no puedo procesar esto.'') = []"
    by (simp add: isolate_json_def drop_after_brace_def drop_before_brace_def py_strip_def
        py_isspace_def)
  have n: "normalize_text sample_lib ''Lo siento, no puedo procesar esto.'' = unreadable_text"
    by (simp add: normalize_text_def i)
  have c: "\<not> py_contains ''Lo siento, no puedo procesar esto.'' ''JSON ilegible''"
    by (simp add: py_contains_def upt_conv_Cons)
  show ?thesis
    using c by (simp add: n unreadable_text_def normalization_fails_def i)
qed

section \<open>Normalizing a normalized result again\<close>



















section \<open>Processing a file\<close>

lemma extract_corto:
  "extract_text_smart
     \<lparr>pages = [sample_page ''RESOLUCION No 123 de 2026, por la cual se ordena.'']\<rparr> 4000
   = Inr ''RESOLUCION No 123 de 2026, por la cual se ordena.''"
  by (simp add: extract_text_smart_def sample_page_def py_strip_def py_isspace_def)







text \<open>
  C8 fails on a document without pages: both variants return \<open>VACIO\<close> with the document
  still open, whereas the short-text path of the text-only variant closes it.
\<close>

theorem zero_page_document_left_open:
  "process_pdf_text sample_services ''/data/vacio.pdf'' = (vacio_text, [DocOpen])
   \<and> process_pdf_hybrid sample_services ''/data/vacio.pdf'' = (vacio_hybrid, [DocOpen])
   \<and> DocClose \<notin> set (snd (process_pdf_text sample_services ''/data/vacio.pdf''))
   \<and> DocClose \<notin> set (snd (process_pdf_hybrid sample_services ''/data/vacio.pdf''))
   \<and> DocClose \<in> set (snd (process_pdf_text sample_services ''/data/corto.pdf''))"
proof -
  have v: "fitz_open sample_services ''/data/vacio.pdf'' = Inr \<lparr>pages = []\<rparr>"
    by (simp add: sample_services_def)
  have c: "fitz_open sample_services ''/data/corto.pdf''
             = Inr \<lparr>pages = [sample_page ''RESOLUCION No 123 de 2026, por la cual se ordena.'']\<rparr>"
    by (simp add: sample_services_def)
  have t: "process_pdf_text sample_services ''/data/vacio.pdf'' = (vacio_text, [DocOpen])"
    by (simp add: process_pdf_text_def v)
  have h: "process_pdf_hybrid sample_services ''/data/vacio.pdf'' = (vacio_hybrid, [DocOpen])"
    by (simp add: process_pdf_hybrid_def v)
  have s: "process_pdf_text sample_services ''/data/corto.pdf''
             = (scanned_text, [DocOpen, DocClose])"
    by (simp add: process_pdf_text_def c extract_corto)
  show ?thesis by (simp add: t h s)
qed

end
